theory Spec2Isabelle
  imports Main "HOL-Library.Sublist"
begin

section \<open>Array objects and references\<close>

text \<open>
  A JavaScript array is an object: a variable or a field holds a reference to it, and two
  references to the same array see each other's mutations. The claims about the song store
  depend on exactly that, so arrays live in an explicit heap. An address is a natural
  number; \<open>arrays h a\<close> is the current content of the array at address \<open>a\<close>, and
  \<open>fresh h\<close> is the next address that \<open>alloc\<close> hands out (addresses below it are
  the allocated ones). There is no garbage collection. This heap records the content of
  every array and nothing else; whether an array still accepts a new element is recorded
  on top of it, in the section on arrays that refuse an append.

  The elements are values of an arbitrary type \<open>'s\<close>: the store never looks into a
  song, it only appends it and copies the container (the spread copies the container, not
  the elements, so \<open>'s\<close> may as well be read as the type of references to song objects).
\<close>

type_synonym addr = nat

record 's heap =
  arrays :: "addr \<Rightarrow> 's list"
  fresh :: addr

definition empty_heap :: "'s heap" where
  "empty_heap = \<lparr>arrays = (\<lambda>a. []), fresh = 0\<rparr>"

text \<open>An array literal or a spread expression creates a new array object.\<close>

definition alloc :: "'s list \<Rightarrow> 's heap \<Rightarrow> addr \<times> 's heap" where
  "alloc xs h = (fresh h, h\<lparr>arrays := (arrays h)(fresh h := xs), fresh := Suc (fresh h)\<rparr>)"

text \<open>
  Any in-place mutation of the array at address \<open>a\<close> (\<open>push\<close>, \<open>pop\<close>, \<open>splice\<close>,
  an assignment to an index or to \<open>length\<close>, ...) replaces its content by a function of
  the old content, for everyone who holds a reference to it.
\<close>

definition array_mutate :: "addr \<Rightarrow> ('s list \<Rightarrow> 's list) \<Rightarrow> 's heap \<Rightarrow> 's heap" where
  "array_mutate a f h = h\<lparr>arrays := (arrays h)(a := f (arrays h a))\<rparr>"

text \<open>What \<^verbatim>\<open>Array.prototype.push\<close> does to the content of an array that accepts the
  element (when it throws instead is written out in \<open>Array_push\<close> below), and
  \<^verbatim>\<open>Array.prototype.pop\<close> (on an empty array \<open>pop\<close> leaves it empty).\<close>

definition push :: "addr \<Rightarrow> 's \<Rightarrow> 's heap \<Rightarrow> 's heap" where
  "push a x h = h\<lparr>arrays := (arrays h)(a := arrays h a @ [x])\<rparr>"

definition pop :: "addr \<Rightarrow> 's heap \<Rightarrow> 's heap" where
  "pop a h = h\<lparr>arrays := (arrays h)(a := butlast (arrays h a))\<rparr>"

text \<open>
  A method that returns an array returns a reference together with the heap after the call;
  \<open>returned\<close> is the sequence that this reference denotes at the moment of the return.
\<close>

definition returned :: "addr \<times> 's heap \<Rightarrow> 's list" where
  "returned r = arrays (snd r) (fst r)"

section \<open>The song store: \<^verbatim>\<open>songs.service.ts\<close>\<close>

text \<open>
  \<^verbatim>\<open>
  export interface Song {
    title: string;
    artist: string;
    [key: string]: any;
  }
  \<close>
  The index signature admits any further named fields; their values have the type
  parameter \<open>'v\<close>.
\<close>

record 'v Song =
  title :: string
  artist :: string
  extra :: "(string \<times> 'v) list"

text \<open>
  \<^verbatim>\<open>
  export class SongsService {
    private readonly songs: Song[] = [];
    create(song: Song) {
      this.songs.push(song);
      return this.songs;
    }
    findAll() {
      return [...this.songs];
    }
  }
  \<close>
  The field \<open>songs\<close> holds a reference; it is \<open>readonly\<close>, so the reference never
  changes, only the array it points to does.
\<close>

record SongsService =
  songs :: addr

text \<open>Construction runs the field initialiser \<^verbatim>\<open>= []\<close>, which allocates the array.\<close>

definition new_SongsService :: "'s heap \<Rightarrow> SongsService \<times> 's heap" where
  "new_SongsService h = (case alloc [] h of (a, h') \<Rightarrow> (\<lparr>songs = a\<rparr>, h'))"

definition create :: "SongsService \<Rightarrow> 's \<Rightarrow> 's heap \<Rightarrow> addr \<times> 's heap" where
  "create this song h = (let h' = push (songs this) song h in (songs this, h'))"

definition findAll :: "SongsService \<Rightarrow> 's heap \<Rightarrow> addr \<times> 's heap" where
  "findAll this h = alloc (arrays h (songs this)) h"

text \<open>The collection the store holds internally, and the state in which its array exists.\<close>

definition stored :: "SongsService \<Rightarrow> 's heap \<Rightarrow> 's list" where
  "stored this h = arrays h (songs this)"

definition allocated :: "SongsService \<Rightarrow> 's heap \<Rightarrow> bool" where
  "allocated this h = (songs this < fresh h)"

text \<open>A run of \<open>create\<close> calls, one per song, in order; the returned references are dropped.\<close>

fun creates :: "SongsService \<Rightarrow> 's list \<Rightarrow> 's heap \<Rightarrow> 's heap" where
  "creates this [] h = h"
| "creates this (s # ss) h = creates this ss (snd (create this s h))"

section \<open>The songs controller\<close>

text \<open>
  \<^verbatim>\<open>
  @Controller('songs')
  export class SongsController {
    constructor(private songsService: SongsService) {}
    @Get()          findAll()     { return this.songsService.findAll(); }
    @Get(':id')     findASong()   { return 'Song Received!!'; }
    @Post()         addASong(): Song[] {
      return this.songsService.create({ title: 'Ulazi ', artist: 'Amaroto ' });
    }
    @Put(':id')     changeASong() { return 'Song updated succesfully!!'; }
    @Delete(':id')  removeASong() { return 'Song removed succesfully!!'; }
  }
  \<close>
  A handler returns a reference to an array or a string literal. No handler declares a
  parameter: the \<open>id\<close> of the path and the request body never reach it.
\<close>

record SongsController =
  songsService :: SongsService

definition new_SongsController :: "SongsService \<Rightarrow> SongsController" where
  "new_SongsController svc = \<lparr>songsService = svc\<rparr>"

datatype handler_result = ArrayRef addr | Literal string

definition SongsController_findAll ::
  "SongsController \<Rightarrow> 's heap \<Rightarrow> handler_result \<times> 's heap" where
  "SongsController_findAll this h =
     (case findAll (songsService this) h of (a, h') \<Rightarrow> (ArrayRef a, h'))"

definition findASong :: "SongsController \<Rightarrow> 's heap \<Rightarrow> handler_result \<times> 's heap" where
  "findASong this h = (Literal ''Song Received!!'', h)"

definition addASong ::
  "SongsController \<Rightarrow> 'v Song heap \<Rightarrow> handler_result \<times> 'v Song heap" where
  "addASong this h =
     (case create (songsService this) \<lparr>title = ''Ulazi '', artist = ''Amaroto '', extra = []\<rparr> h
      of (a, h') \<Rightarrow> (ArrayRef a, h'))"

definition changeASong :: "SongsController \<Rightarrow> 's heap \<Rightarrow> handler_result \<times> 's heap" where
  "changeASong this h = (Literal ''Song updated succesfully!!'', h)"

definition removeASong :: "SongsController \<Rightarrow> 's heap \<Rightarrow> handler_result \<times> 's heap" where
  "removeASong this h = (Literal ''Song removed succesfully!!'', h)"

text \<open>
  The route table that the decorators declare under the prefix \<^verbatim>\<open>songs\<close>. A request
  carries what the client supplied: the \<open>id\<close> segment of the path (any text) and the
  body (any text).
\<close>

datatype request =
  GET_songs
| GET_songs_id string
| POST_songs string
| PUT_songs_id string string
| DELETE_songs_id string

fun route :: "SongsController \<Rightarrow> request \<Rightarrow> 'v Song heap \<Rightarrow> handler_result \<times> 'v Song heap" where
  "route this GET_songs h = SongsController_findAll this h"
| "route this (GET_songs_id i) h = findASong this h"
| "route this (POST_songs b) h = addASong this h"
| "route this (PUT_songs_id i b) h = changeASong this h"
| "route this (DELETE_songs_id i) h = removeASong this h"

text \<open>
  The response body: the framework serialises what the handler returned, at the moment it
  returned it. An array reference is read through the heap after the call.
\<close>

datatype 's response = JsonArray "'s list" | Text string

fun serialize :: "handler_result \<Rightarrow> 's heap \<Rightarrow> 's response" where
  "serialize (ArrayRef a) h = JsonArray (arrays h a)"
| "serialize (Literal s) h = Text s"

definition handle :: "SongsController \<Rightarrow> request \<Rightarrow> 'v Song heap \<Rightarrow> 'v Song response \<times> 'v Song heap" where
  "handle this rq h = (case route this rq h of (r, h') \<Rightarrow> (serialize r h', h'))"

text \<open>
  Two concrete states: a store constructed in the empty heap, and that store after one
  \<open>create\<close> call.
\<close>

definition fresh_store :: SongsService where
  "fresh_store = fst (new_SongsService (empty_heap :: unit Song heap))"

definition fresh_heap :: "unit Song heap" where
  "fresh_heap = snd (new_SongsService empty_heap)"

definition one_song_heap :: "unit Song heap" where
  "one_song_heap =
     snd (create fresh_store \<lparr>title = ''Ulazi '', artist = ''Amaroto '', extra = []\<rparr> fresh_heap)"

section \<open>Arrays that refuse an append\<close>

text \<open>
  \<^verbatim>\<open>this.songs.push(song)\<close> is a call into the runtime, and the runtime can throw:
  \<^item> a \<^verbatim>\<open>TypeError\<close> when the array no longer accepts a new element, which is the case
    after \<^verbatim>\<open>Object.freeze\<close>, \<^verbatim>\<open>Object.seal\<close> or \<^verbatim>\<open>Object.preventExtensions\<close>
    on it;
  \<^item> a \<^verbatim>\<open>RangeError\<close> when the array already has the greatest length an array can
    have, \<open>2\<^sup>3\<^sup>2 - 1\<close>.
  In both cases the sequence of elements is left as it was. The source of \<open>create\<close>
  has no \<^verbatim>\<open>try\<close>, so the exception leaves \<open>create\<close> and no reference is returned.

  The state is the heap together with the flag \<open>extensible\<close> of every array object.
\<close>

datatype exception = TypeError | RangeError

definition max_array_length :: nat where
  "max_array_length = 4294967295"

record 's objects =
  heap_of :: "'s heap"
  extensible :: "addr \<Rightarrow> bool"



text \<open>
  \<^verbatim>\<open>Array.prototype.push\<close> with its exceptions: the element is written first, which a
  non-extensible array rejects; then the length is set, which fails beyond the greatest
  length. The result is the exception thrown, if any, and the state after the call.
\<close>

definition Array_push :: "addr \<Rightarrow> 's \<Rightarrow> 's objects \<Rightarrow> exception option \<times> 's objects" where
  "Array_push a x os =
     (if \<not> extensible os a then (Some TypeError, os)
      else if max_array_length \<le> length (arrays (heap_of os) a) then (Some RangeError, os)
      else (None, os\<lparr>heap_of := push a x (heap_of os)\<rparr>))"

text \<open>
  \<open>create\<close> with the exceptions of \<open>push\<close> written out: an exception of the first
  statement ends the call (\<open>Inl\<close>), otherwise the second statement returns
  \<^verbatim>\<open>this.songs\<close> (\<open>Inr\<close>).
\<close>

definition create_or_throw ::
  "SongsService \<Rightarrow> 's \<Rightarrow> 's objects \<Rightarrow> (exception + addr) \<times> 's objects" where
  "create_or_throw this song os =
     (case Array_push (songs this) song os of
        (Some e, os') \<Rightarrow> (Inl e, os')
      | (None, os') \<Rightarrow> (Inr (songs this), os'))"



section \<open>Basic facts\<close>

lemma stored_new_SongsService: "stored (fst (new_SongsService h)) (snd (new_SongsService h)) = []"
  by (simp add: new_SongsService_def alloc_def stored_def)

lemma allocated_new_SongsService:
  "allocated (fst (new_SongsService h)) (snd (new_SongsService h))"
  by (simp add: new_SongsService_def alloc_def allocated_def)

lemma fst_create: "fst (create this song h) = songs this"
  by (simp add: create_def)

lemma stored_create: "stored this (snd (create this song h)) = stored this h @ [song]"
  by (simp add: create_def push_def stored_def)

lemma returned_create: "returned (create this song h) = stored this h @ [song]"
  by (simp add: create_def push_def stored_def returned_def)

lemma allocated_create: "allocated this h \<Longrightarrow> allocated this (snd (create this song h))"
  by (simp add: create_def push_def allocated_def)

lemma fst_findAll: "fst (findAll this h) = fresh h"
  by (simp add: findAll_def alloc_def)

lemma returned_findAll: "returned (findAll this h) = stored this h"
  by (simp add: findAll_def alloc_def stored_def returned_def)

lemma stored_findAll: "stored this (snd (findAll this h)) = stored this h"
  by (simp add: findAll_def alloc_def stored_def)

lemma findAll_keeps_allocated_arrays:
  "a < fresh h \<Longrightarrow> arrays (snd (findAll this h)) a = arrays h a"
  by (simp add: findAll_def alloc_def)

lemma findAll_new_reference: "allocated this h \<Longrightarrow> fst (findAll this h) \<noteq> songs this"
  by (simp add: findAll_def alloc_def allocated_def)

lemma allocated_findAll: "allocated this h \<Longrightarrow> allocated this (snd (findAll this h))"
  by (simp add: findAll_def alloc_def allocated_def)

lemma stored_array_mutate:
  "a \<noteq> songs this \<Longrightarrow> stored this (array_mutate a f h) = stored this h"
  by (simp add: array_mutate_def stored_def)

lemma allocated_array_mutate: "allocated this (array_mutate a f h) = allocated this h"
  by (simp add: array_mutate_def allocated_def)

lemma stored_creates: "stored this (creates this ss h) = stored this h @ ss"
  by (induction ss arbitrary: h) (simp_all add: stored_create)

lemma allocated_creates: "allocated this h \<Longrightarrow> allocated this (creates this ss h)"
  by (induction ss arbitrary: h) (simp_all add: allocated_create)

section \<open>Insertion order\<close>

text \<open>
  Claim C2. \<open>create\<close> appends the record to the end of the stored collection, and after
  any sequence of \<open>create\<close> calls on a freshly constructed store (in any heap),
  \<open>findAll\<close> returns exactly the created songs, in the order of their creation.
\<close>

theorem create_preserves_insertion_order:
  "stored this (snd (create this song h)) = stored this h @ [song]
   \<and> returned (findAll (fst (new_SongsService h0))
        (creates (fst (new_SongsService h0)) ss (snd (new_SongsService h0)))) = ss"
  by (simp add: stored_create returned_findAll stored_creates stored_new_SongsService)


section \<open>The freshly constructed store\<close>

text \<open>
  Claim C6. On a store that has just been constructed (in any heap, with no \<open>create\<close>
  call so far), \<open>findAll\<close> returns the empty sequence.
\<close>

theorem findAll_fresh_store_empty:
  "returned (findAll (fst (new_SongsService h)) (snd (new_SongsService h))) = []"
  by (simp add: returned_findAll stored_new_SongsService)

section \<open>Reading does not write\<close>

text \<open>
  Claim C9. \<open>findAll\<close> is a pure read: the call leaves the stored collection as it
  was, and two \<open>findAll\<close> calls in a row, with no \<open>create\<close> between them, return
  equal sequences.
\<close>

theorem findAll_pure_read:
  "stored this (snd (findAll this h)) = stored this h
   \<and> returned (findAll this (snd (findAll this h))) = returned (findAll this h)"
  by (simp add: returned_findAll stored_findAll)

text \<open>
  Claim C5. \<open>findAll\<close> copies out: the reference it returns is not the reference the
  store holds, and whatever the caller does to the returned array (any in-place mutation
  \<open>f\<close>), the stored collection and the result of a later \<open>findAll\<close> are what they
  were.
\<close>

theorem findAll_copy_out:
  assumes "allocated this h"
  shows "fst (findAll this h) \<noteq> songs this
   \<and> stored this (array_mutate (fst (findAll this h)) f (snd (findAll this h))) = stored this h
   \<and> returned (findAll this (array_mutate (fst (findAll this h)) f (snd (findAll this h))))
       = returned (findAll this h)"
proof -
  have new: "fst (findAll this h) \<noteq> songs this"
    using assms by (rule findAll_new_reference)
  then have "stored this (array_mutate (fst (findAll this h)) f (snd (findAll this h)))
      = stored this (snd (findAll this h))"
    by (rule stored_array_mutate)
  then have kept: "stored this (array_mutate (fst (findAll this h)) f (snd (findAll this h)))
      = stored this h"
    by (simp add: stored_findAll)
  from new kept show ?thesis
    by (simp add: returned_findAll)
qed

theorem findAll_copy_out_witness:
  "allocated fresh_store one_song_heap
   \<and> fst (findAll fresh_store one_song_heap) \<noteq> songs fresh_store
   \<and> stored fresh_store
        (array_mutate (fst (findAll fresh_store one_song_heap)) butlast
           (snd (findAll fresh_store one_song_heap)))
       = stored fresh_store one_song_heap
   \<and> returned (findAll fresh_store
        (array_mutate (fst (findAll fresh_store one_song_heap)) butlast
           (snd (findAll fresh_store one_song_heap))))
       = returned (findAll fresh_store one_song_heap)
   \<and> returned (findAll fresh_store one_song_heap)
       = [\<lparr>title = ''Ulazi '', artist = ''Amaroto '', extra = []\<rparr>]"
proof -
  have a: "allocated fresh_store one_song_heap"
    by (simp add: allocated_def fresh_store_def one_song_heap_def fresh_heap_def
        new_SongsService_def create_def push_def alloc_def empty_heap_def)
  have v: "returned (findAll fresh_store one_song_heap)
       = [\<lparr>title = ''Ulazi '', artist = ''Amaroto '', extra = []\<rparr>]"
    by (simp add: returned_findAll stored_def fresh_store_def one_song_heap_def fresh_heap_def
        new_SongsService_def create_def push_def alloc_def empty_heap_def)
  from a v findAll_copy_out [OF a, of butlast] show ?thesis
    by simp
qed

section \<open>What create hands out\<close>

text \<open>
  The reference that \<open>create\<close> returns is the store's own: a mutation through it is a
  mutation of the stored collection.
\<close>

lemma create_result_aliases_store:
  "stored this (array_mutate (fst (create this song h)) f (snd (create this song h)))
     = f (stored this h @ [song])"
  by (simp add: create_def push_def array_mutate_def stored_def)

text \<open>
  Claim C1. The claim says that mutating the sequence returned by \<open>create\<close> leaves the
  store and a later \<open>findAll\<close> unchanged. The code returns \<^verbatim>\<open>this.songs\<close> itself:
  on a fresh store, after \<open>create\<close> of one song, the returned reference is the store's
  field; \<open>findAll\<close> would return that one song, but after the caller pops the returned
  array it returns nothing, and after the caller pushes onto it the store holds two songs.
\<close>

theorem create_returns_live_reference:
  "fst (create fresh_store \<lparr>title = ''Ulazi '', artist = ''Amaroto '', extra = []\<rparr> fresh_heap) = songs fresh_store
   \<and> returned (findAll fresh_store (snd (create fresh_store \<lparr>title = ''Ulazi '', artist = ''Amaroto '', extra = []\<rparr> fresh_heap))) = [\<lparr>title = ''Ulazi '', artist = ''Amaroto '', extra = []\<rparr>]
   \<and> returned (findAll fresh_store
        (pop (fst (create fresh_store \<lparr>title = ''Ulazi '', artist = ''Amaroto '', extra = []\<rparr> fresh_heap))
           (snd (create fresh_store \<lparr>title = ''Ulazi '', artist = ''Amaroto '', extra = []\<rparr> fresh_heap)))) = []
   \<and> returned (findAll fresh_store
        (push (fst (create fresh_store \<lparr>title = ''Ulazi '', artist = ''Amaroto '', extra = []\<rparr> fresh_heap)) \<lparr>title = ''Ulazi '', artist = ''Amaroto '', extra = []\<rparr>
           (snd (create fresh_store \<lparr>title = ''Ulazi '', artist = ''Amaroto '', extra = []\<rparr> fresh_heap)))) = [\<lparr>title = ''Ulazi '', artist = ''Amaroto '', extra = []\<rparr>, \<lparr>title = ''Ulazi '', artist = ''Amaroto '', extra = []\<rparr>]"
  by (simp add: returned_findAll stored_def fresh_store_def fresh_heap_def
      new_SongsService_def create_def push_def pop_def alloc_def empty_heap_def)

section \<open>When create throws\<close>

lemma Array_push_accepts:
  "extensible os a \<Longrightarrow> length (arrays (heap_of os) a) < max_array_length \<Longrightarrow>
   Array_push a x os = (None, os\<lparr>heap_of := push a x (heap_of os)\<rparr>)"
  by (simp add: Array_push_def)

text \<open>
  On an array that accepts the element, \<open>create_or_throw\<close> is \<open>create\<close>: the
  reference and the heap are the ones \<open>create\<close> computes.
\<close>

lemma create_or_throw_is_create:
  assumes "extensible os (songs this)"
    and "length (stored this (heap_of os)) < max_array_length"
  shows "create_or_throw this song os =
     (Inr (fst (create this song (heap_of os))),
      os\<lparr>heap_of := snd (create this song (heap_of os))\<rparr>)"
  using assms by (simp add: create_or_throw_def Array_push_accepts stored_def create_def)







section \<open>The routes\<close>

lemma handle_GET_songs:
  "handle ctl GET_songs h =
     (JsonArray (stored (songsService ctl) h), snd (findAll (songsService ctl) h))"
  by (simp add: handle_def SongsController_findAll_def findAll_def alloc_def stored_def)

lemma handle_POST_songs:
  "handle ctl (POST_songs b) h =
     (JsonArray (stored (songsService ctl) h @ [\<lparr>title = ''Ulazi '', artist = ''Amaroto '', extra = []\<rparr>]),
      snd (create (songsService ctl) \<lparr>title = ''Ulazi '', artist = ''Amaroto '', extra = []\<rparr> h))"
  by (simp add: handle_def addASong_def create_def push_def stored_def)

lemma handle_stubs:
  "handle ctl (GET_songs_id i) h = (Text ''Song Received!!'', h)"
  "handle ctl (PUT_songs_id i b) h = (Text ''Song updated succesfully!!'', h)"
  "handle ctl (DELETE_songs_id i) h = (Text ''Song removed succesfully!!'', h)"
  by (simp_all add: handle_def findASong_def changeASong_def removeASong_def)

lemma allocated_handle:
  "allocated (songsService ctl) h \<Longrightarrow> allocated (songsService ctl) (snd (handle ctl rq h))"
  by (cases rq)
    (simp_all add: handle_GET_songs handle_POST_songs handle_stubs
      allocated_findAll allocated_create)

text \<open>
  Claim C3. With a freshly constructed store behind the controller, \<^verbatim>\<open>GET /songs\<close>
  answers the empty list. \<^verbatim>\<open>POST /songs\<close>, whatever its body \<open>b\<close>, answers the
  stored list with the hardcoded record appended (on the fresh store: that record alone),
  and a \<^verbatim>\<open>GET /songs\<close> after it answers the list of exactly that record.
\<close>

theorem get_songs_after_post_songs:
  "fst (handle (new_SongsController (fst (new_SongsService h0))) GET_songs
         (snd (new_SongsService h0))) = JsonArray []
   \<and> fst (handle (new_SongsController (fst (new_SongsService h0))) (POST_songs b)
         (snd (new_SongsService h0))) = JsonArray [\<lparr>title = ''Ulazi '', artist = ''Amaroto '', extra = []\<rparr>]
   \<and> fst (handle (new_SongsController (fst (new_SongsService h0))) GET_songs
         (snd (handle (new_SongsController (fst (new_SongsService h0))) (POST_songs b)
            (snd (new_SongsService h0))))) = JsonArray [\<lparr>title = ''Ulazi '', artist = ''Amaroto '', extra = []\<rparr>]
   \<and> fst (handle ctl (POST_songs b) h) = JsonArray (stored (songsService ctl) h @ [\<lparr>title = ''Ulazi '', artist = ''Amaroto '', extra = []\<rparr>])"
  by (simp add: handle_GET_songs handle_POST_songs new_SongsController_def
      stored_new_SongsService stored_create)

text \<open>
  Claim C4. The three stub routes answer their fixed texts for every \<open>id\<close> (any text,
  numeric or not), every body and every state of the store.
\<close>

theorem stub_routes_fixed_literals:
  "fst (handle ctl (GET_songs_id i) h) = Text ''Song Received!!''
   \<and> fst (handle ctl (PUT_songs_id i b) h) = Text ''Song updated succesfully!!''
   \<and> fst (handle ctl (DELETE_songs_id i) h) = Text ''Song removed succesfully!!''"
  by (simp add: handle_stubs)

text \<open>
  Claim C7. The get-one, update and delete routes neither read nor write the store: the
  state after each of them is the state before it, so the stored collection and the
  result of a later \<open>findAll\<close> are unchanged, and their answers are the same in any two
  states.
\<close>

theorem stub_routes_leave_store_unchanged:
  "snd (handle ctl (GET_songs_id i) h) = h
   \<and> snd (handle ctl (PUT_songs_id i b) h) = h
   \<and> snd (handle ctl (DELETE_songs_id i) h) = h
   \<and> stored (songsService ctl) (snd (handle ctl (GET_songs_id i) h)) = stored (songsService ctl) h
   \<and> stored (songsService ctl) (snd (handle ctl (PUT_songs_id i b) h)) = stored (songsService ctl) h
   \<and> stored (songsService ctl) (snd (handle ctl (DELETE_songs_id i) h)) = stored (songsService ctl) h
   \<and> returned (findAll (songsService ctl) (snd (handle ctl (GET_songs_id i) h)))
       = returned (findAll (songsService ctl) h)
   \<and> returned (findAll (songsService ctl) (snd (handle ctl (PUT_songs_id i b) h)))
       = returned (findAll (songsService ctl) h)
   \<and> returned (findAll (songsService ctl) (snd (handle ctl (DELETE_songs_id i) h)))
       = returned (findAll (songsService ctl) h)
   \<and> fst (handle ctl (GET_songs_id i) h) = fst (handle ctl' (GET_songs_id i') h')
   \<and> fst (handle ctl (PUT_songs_id i b) h) = fst (handle ctl' (PUT_songs_id i' b') h')
   \<and> fst (handle ctl (DELETE_songs_id i) h) = fst (handle ctl' (DELETE_songs_id i') h')"
  by (simp add: handle_stubs)

section \<open>Append only\<close>

lemma prefix_stored_handle:
  "prefix (stored (songsService ctl) h) (stored (songsService ctl) (snd (handle ctl rq h)))"
  by (cases rq)
    (simp_all add: handle_GET_songs handle_POST_songs handle_stubs stored_findAll stored_create)

text \<open>
  Claim C10. Every operation of the public surface is append-only: for \<open>create\<close>, for
  \<open>findAll\<close> and for every request \<open>rq\<close> to the controller (the list route, the
  create route and the three stubs), the stored list before the operation is a prefix of the
  stored list after it.
\<close>

theorem store_append_only:
  "prefix (stored this h) (stored this (snd (create this song h)))
   \<and> prefix (stored this h) (stored this (snd (findAll this h)))
   \<and> prefix (stored (songsService ctl) h') (stored (songsService ctl) (snd (handle ctl rq h')))"
  by (simp add: stored_create stored_findAll prefix_stored_handle)

end
